theory Spec2Isabelle
  imports Complex_Main "HOL-Library.Sublist"
begin

section \<open>Python strings\<close>

text \<open>
  A Python \<open>str\<close> is modelled as a \<open>string\<close>, one \<open>char\<close> per code point (code
  points up to 255). The markers the repository searches for are ASCII, and lowercasing a
  character outside ASCII never yields one of their letters next to the following one, so
  the case mapping is the ASCII table of \<open>str.lower\<close> and \<open>str.upper\<close>.
\<close>

definition ascii_uppercase :: string where
  "ascii_uppercase = ''ABCDEFGHIJKLMNOPQRSTUVWXYZ''"

definition ascii_lowercase :: string where
  "ascii_lowercase = ''abcdefghijklmnopqrstuvwxyz''"

definition lower_char :: "char \<Rightarrow> char" where
  "lower_char c =
     (case map_of (zip ascii_uppercase ascii_lowercase) c of Some d \<Rightarrow> d | None \<Rightarrow> c)"

definition upper_char :: "char \<Rightarrow> char" where
  "upper_char c =
     (case map_of (zip ascii_lowercase ascii_uppercase) c of Some d \<Rightarrow> d | None \<Rightarrow> c)"

text \<open>\<open>s.lower()\<close>\<close>

definition lower :: "string \<Rightarrow> string" where
  "lower s = map lower_char s"

text \<open>\<open>s.capitalize()\<close>: the first character in upper case, the rest in lower case.\<close>

fun capitalize :: "string \<Rightarrow> string" where
  "capitalize [] = []"
| "capitalize (c # cs) = upper_char c # lower cs"

text \<open>\<open>sub in s\<close> on strings: \<open>sub\<close> occurs in \<open>s\<close> as a contiguous substring.\<close>

fun contains :: "string \<Rightarrow> string \<Rightarrow> bool" where
  "contains sub [] = (sub = [])"
| "contains sub (c # cs) = (prefix sub (c # cs) \<or> contains sub cs)"

text \<open>
  \<open>c.isspace()\<close> for the code points up to 255, and \<open>s.strip()\<close>, which removes the
  white space at both ends.
\<close>

definition whitespace :: string where
  "whitespace =
     [CHR 0x09, CHR 0x0A, CHR 0x0B, CHR 0x0C, CHR 0x0D, CHR 0x1C, CHR 0x1D, CHR 0x1E,
      CHR 0x1F, CHR 0x20, CHR 0x85, CHR 0xA0]"

definition isspace :: "char \<Rightarrow> bool" where
  "isspace c = (c \<in> set whitespace)"

definition strip :: "string \<Rightarrow> string" where
  "strip s = rev (dropWhile isspace (rev (dropWhile isspace s)))"

section \<open>Exceptions and the generation service\<close>

text \<open>
  A raised exception is a value: \<open>ValueError\<close> is the class \<open>__init__\<close> raises, and
  \<open>Exception\<close> stands for an instance of any other subclass of \<open>Exception\<close>, the class
  both handlers of the repository name. \<open>str\<close> is Python's \<open>str(e)\<close>.
\<close>

datatype exn = ValueError (str: string) | Exception (str: string)

text \<open>
  The hosted model is outside the repository. It is a parameter: given the model name,
  the generation configuration (a dict of numbers) and the prompt, the three calls
  \<open>genai.GenerativeModel(...)\<close>, \<open>model.generate_content(prompt)\<close> and
  \<open>response.text\<close> either raise or give the generated text.
\<close>

type_synonym generation_config = "(string \<times> real) list"

type_synonym genai = "string \<Rightarrow> generation_config \<Rightarrow> string \<Rightarrow> exn + string"

text \<open>The dict both generate operations build before calling the service.\<close>

definition generation_config :: "real \<Rightarrow> generation_config" where
  "generation_config temp =
     [(''temperature'', temp), (''top_p'', 0.95), (''top_k'', 0),
      (''max_output_tokens'', 8192)]"

section \<open>Messages\<close>

text \<open>
  A message of the conversation is a dict. Its \<open>content\<close> is always there; \<open>role\<close>
  is read with a default (\<open>message.get("role", "user")\<close>) and \<open>name\<close>, the name of
  the agent that spoke the turn, is what the group chat records beside it; both may be
  absent.
\<close>

record message =
  name :: "string option"
  role :: "string option"
  content :: string

section \<open>custom\_agents.py\<close>

record GeminiAssistantAgent =
  agent_name :: string
  system_message :: string
  model :: string
  temperature :: real

definition placeholder_key :: string where
  "placeholder_key = ''YOUR_GEMINI_API_KEY_HERE''"

text \<open>Python's \<open>not api_key\<close> for the result of \<open>os.environ.get\<close>: \<open>None\<close> or the empty string.\<close>

definition not_key :: "string option \<Rightarrow> bool" where
  "not_key api_key = (api_key = None \<or> api_key = Some [])"

text \<open>
  \<open>GeminiAssistantAgent.__init__\<close>, with the process environment as a map. The parent
  class's constructor and \<open>genai.configure\<close> belong to libraries and are not modelled;
  the check of the credential between them is.
\<close>

definition GeminiAssistantAgent_init ::
  "(string \<rightharpoonup> string) \<Rightarrow> string \<Rightarrow> string \<Rightarrow> string \<Rightarrow> real \<Rightarrow> exn + GeminiAssistantAgent" where
  "GeminiAssistantAgent_init environ nm sys_msg mdl temp =
     (let api_key = environ ''GOOGLE_API_KEY'' in
      if not_key api_key \<or> api_key = Some placeholder_key
      then Inl (ValueError ''GOOGLE_API_KEY not found or not set. Please check your .env file.'')
      else Inr \<lparr>agent_name = nm, system_message = sys_msg, model = mdl, temperature = temp\<rparr>)"

text \<open>\<open>_format_messages_for_gemini\<close>: the loop over the messages, then the final prompt.\<close>

definition format_message :: "message \<Rightarrow> string" where
  "format_message m =
     (let r = (case role m of None \<Rightarrow> ''user'' | Some r \<Rightarrow> r) in
      if r = ''user'' then ''User: '' @ content m @ ''\<newline>\<newline>''
      else if r = ''assistant'' then ''Assistant: '' @ content m @ ''\<newline>\<newline>''
      else capitalize r @ '': '' @ content m @ ''\<newline>\<newline>'')"

fun format_messages :: "string \<Rightarrow> message list \<Rightarrow> string" where
  "format_messages formatted_prompt [] = formatted_prompt"
| "format_messages formatted_prompt (m # ms) =
     format_messages (formatted_prompt @ format_message m) ms"

definition format_messages_for_gemini :: "GeminiAssistantAgent \<Rightarrow> message list \<Rightarrow> string" where
  "format_messages_for_gemini self msgs =
     format_messages (''System: '' @ system_message self @ ''\<newline>\<newline>'') msgs @ ''Assistant: ''"

text \<open>
  \<open>generate_reply\<close>: the prompt is built first, the service is called inside
  \<open>try\<close>, and \<open>except Exception as e\<close> returns the error text.
\<close>

definition generate_reply :: "genai \<Rightarrow> GeminiAssistantAgent \<Rightarrow> message list \<Rightarrow> exn + string" where
  "generate_reply service self msgs =
     (let prompt = format_messages_for_gemini self msgs in
      case service (model self) (generation_config (temperature self)) prompt of
        Inr text \<Rightarrow> Inr text
      | Inl e \<Rightarrow> Inr (''Error: '' @ str e))"

section \<open>app.py\<close>

subsection \<open>GeminiWrapper\<close>

text \<open>\<open>GeminiWrapper.generate_content(prompt, model, temperature)\<close>.\<close>

definition generate_content :: "genai \<Rightarrow> string \<Rightarrow> string \<Rightarrow> real \<Rightarrow> exn + string" where
  "generate_content service prompt mdl temp =
     (case service mdl (generation_config temp) prompt of
        Inr text \<Rightarrow> Inr text
      | Inl e \<Rightarrow> Inr (''Error: '' @ str e))"

text \<open>
  The module-level \<open>gemini_wrapper\<close>: an instance holding the key when the key is set
  and is not the placeholder, \<open>None\<close> otherwise.
\<close>

definition gemini_wrapper :: "(string \<rightharpoonup> string) \<Rightarrow> string option" where
  "gemini_wrapper environ =
     (let api_key = environ ''GOOGLE_API_KEY'' in
      if \<not> not_key api_key \<and> api_key \<noteq> Some placeholder_key then api_key else None)"

subsection \<open>The agents and the speaker selection\<close>

text \<open>
  The five module-level agent objects. Python compares them with \<open>==\<close>, which for
  these classes is identity, so they are the constructors of a datatype; \<open>other_agent\<close>
  is any other object passed as the last speaker.
\<close>

datatype agent =
  user_proxy_agent
| resume_analyzer_agent
| question_generator_agent
| interviewer_agent
| evaluator_agent
| other_agent nat

text \<open>The \<open>name\<close> each agent is constructed with.\<close>

fun name_of :: "agent \<Rightarrow> string option" where
  "name_of user_proxy_agent = Some ''CandidateAgent''"
| "name_of resume_analyzer_agent = Some ''ResumeAnalyzerAgent''"
| "name_of question_generator_agent = Some ''QuestionGeneratorAgent''"
| "name_of interviewer_agent = Some ''InterviewerAgent''"
| "name_of evaluator_agent = Some ''EvaluatorAgent''"
| "name_of (other_agent n) = None"

record GroupChat =
  agents :: "agent list"
  messages :: "message list"
  max_round :: nat

text \<open>\<open>messages[-1]["content"] if messages else ""\<close>\<close>

definition last_message :: "GroupChat \<Rightarrow> string" where
  "last_message groupchat =
     (if messages groupchat \<noteq> [] then content (last (messages groupchat)) else [])"

text \<open>
  \<open>custom_speaker_selection(last_speaker, groupchat)\<close>, branch by branch in the order
  of the source. The result \<open>None\<close> ends the conversation.
\<close>

definition custom_speaker_selection :: "agent option \<Rightarrow> GroupChat \<Rightarrow> agent option" where
  "custom_speaker_selection last_speaker groupchat =
     (if last_speaker = None \<or> last_speaker = Some user_proxy_agent then
        (if contains ''resume'' (lower (last_message groupchat))
            \<and> contains ''job description'' (lower (last_message groupchat))
         then Some resume_analyzer_agent
         else if last_speaker = Some interviewer_agent then
           (if contains ''TERMINATE'' (last_message groupchat) then Some evaluator_agent
            else Some user_proxy_agent)
         else Some interviewer_agent)
      else if last_speaker = Some resume_analyzer_agent then Some question_generator_agent
      else if last_speaker = Some question_generator_agent then Some interviewer_agent
      else if last_speaker = Some interviewer_agent then Some user_proxy_agent
      else if last_speaker = Some evaluator_agent then None
      else Some user_proxy_agent)"

text \<open>The group chat the module creates: the five agents, no messages, 50 rounds.\<close>

definition group_chat :: GroupChat where
  "group_chat =
     \<lparr>agents = [user_proxy_agent, resume_analyzer_agent, question_generator_agent,
                interviewer_agent, evaluator_agent],
      messages = [],
      max_round = 50\<rparr>"

subsection \<open>main: starting the interview\<close>

text \<open>
  The widgets of the sidebar as \<open>main\<close> reads them: the two text fields, the uploaded
  file (\<open>None\<close> when nothing was uploaded; \<open>file_size\<close> is its \<open>size\<close>) and the
  start button. \<open>st.session_state\<close> holds the chat history and the started flag.
\<close>

record UploadedFile =
  file_size :: nat

record inputs =
  candidate_name :: string
  resume_file :: "UploadedFile option"
  job_description :: string
  start_button :: bool

record session_state =
  chat_history :: "message list"
  interview_started :: bool

text \<open>The three checks that fill \<open>validation_errors\<close>, in the order of the source.\<close>

definition candidate_name_errors :: "string \<Rightarrow> string list" where
  "candidate_name_errors nm =
     (if nm = [] \<or> strip nm = [] then [''Candidate name is required'']
      else if length (strip nm) < 2
      then [''Candidate name must be at least 2 characters long'']
      else [])"

definition resume_file_errors :: "UploadedFile option \<Rightarrow> string list" where
  "resume_file_errors file =
     (case file of
        None \<Rightarrow> [''Resume file is required'']
      | Some f \<Rightarrow>
          if file_size f > 10 * 1024 * 1024 then [''Resume file must be smaller than 10MB'']
          else [])"

definition job_description_errors :: "string \<Rightarrow> string list" where
  "job_description_errors jd =
     (if jd = [] \<or> strip jd = [] then [''Job description is required'']
      else if length (strip jd) < 50
      then [''Job description must be at least 50 characters long'']
      else [])"

definition validation_errors :: "inputs \<Rightarrow> string list" where
  "validation_errors inp =
     candidate_name_errors (candidate_name inp)
     @ resume_file_errors (resume_file inp)
     @ job_description_errors (job_description inp)"

text \<open>The two prompts, with the indentation the source's f-strings carry.\<close>

definition indent :: string where
  "indent = replicate 32 (CHR 0x20)"

definition analysis_prompt :: "string \<Rightarrow> string \<Rightarrow> string" where
  "analysis_prompt resume_text jd =
     ''\<newline>'' @ indent
     @ ''You are an expert HR analyst. Analyze this resume against the job description:''
     @ ''\<newline>'' @ indent
     @ ''\<newline>'' @ indent @ ''Resume: '' @ resume_text
     @ ''\<newline>'' @ indent
     @ ''\<newline>'' @ indent @ ''Job Description: '' @ jd
     @ ''\<newline>'' @ indent
     @ ''\<newline>'' @ indent @ ''Provide a detailed analysis in JSON format with ''
     @ [CHR 0x27] @ ''match'' @ [CHR 0x27] @ '' and '' @ [CHR 0x27] @ ''gap'' @ [CHR 0x27]
     @ '' sections.''
     @ ''\<newline>'' @ indent"

definition questions_prompt :: "string \<Rightarrow> string" where
  "questions_prompt analysis =
     ''\<newline>'' @ indent @ ''Based on this analysis: '' @ analysis
     @ ''\<newline>'' @ indent
     @ ''\<newline>'' @ indent
     @ ''Generate 5 interview questions that would be good to ask this candidate.''
     @ ''\<newline>'' @ indent @ ''Format as a numbered list.''
     @ ''\<newline>'' @ indent"

definition chat_message :: "string \<Rightarrow> string \<Rightarrow> message" where
  "chat_message r c = \<lparr>name = None, role = Some r, content = c\<rparr>"

definition append_history :: "message \<Rightarrow> session_state \<Rightarrow> session_state" where
  "append_history m st = st\<lparr>chat_history := chat_history st @ [m]\<rparr>"

definition mock_analysis :: string where
  "mock_analysis =
     ''Resume Analysis: This is a mock analysis. In a real application, this would be generated by the Gemini API.''"

definition mock_questions :: string where
  "mock_questions =
     ''Interview Questions:\<newline>\<newline>1. Tell me about your experience with Python.''
     @ ''\<newline>2. How do you handle difficult team situations?''
     @ ''\<newline>3. What project are you most proud of and why?''
     @ ''\<newline>4. How do you stay updated with the latest technologies?''
     @ ''\<newline>5. Where do you see yourself in 5 years?''"

text \<open>
  The block of \<open>main\<close> under \<open>if start_button and not
  st.session_state.interview_started\<close>. It returns the new session state and the
  texts shown with \<open>st.error\<close> and \<open>st.warning\<close> (each without the symbol the source
  puts in front). The local \<open>initial_message\<close> is built and never used, so it is left
  out. An exception inside the \<open>try\<close> resets the started flag and returns.
\<close>

definition start_interview ::
  "genai \<Rightarrow> string option \<Rightarrow> inputs \<Rightarrow> session_state \<Rightarrow> session_state \<times> string list" where
  "start_interview service wrapper inp st =
     (if start_button inp \<and> \<not> interview_started st then
        (if validation_errors inp \<noteq> [] then (st, validation_errors inp)
         else
           let resume_text = ''Sample resume text for '' @ candidate_name inp;
               st1 = append_history
                       (chat_message ''system''
                          (''Interview started for candidate: '' @ candidate_name inp)) st;
               st2 = st1\<lparr>interview_started := True\<rparr>
           in
             (case wrapper of
                Some key \<Rightarrow>
                  (case generate_content service
                          (analysis_prompt resume_text (job_description inp))
                          ''gemini-2.5-pro'' 0.2 of
                     Inl e \<Rightarrow>
                       (st2\<lparr>interview_started := False\<rparr>,
                        [''Error starting interview: '' @ str e])
                   | Inr analysis \<Rightarrow>
                       let st3 = append_history
                                   (chat_message ''assistant''
                                      (''Resume Analysis:\<newline>\<newline>'' @ analysis)) st2
                       in
                         (case generate_content service (questions_prompt analysis)
                                 ''gemini-2.5-pro'' 0.7 of
                            Inl e \<Rightarrow>
                              (st3\<lparr>interview_started := False\<rparr>,
                               [''Error starting interview: '' @ str e])
                          | Inr questions \<Rightarrow>
                              (append_history
                                 (chat_message ''assistant''
                                    (''Interview Questions:\<newline>\<newline>'' @ questions)) st3,
                               [])))
              | None \<Rightarrow>
                  (append_history (chat_message ''assistant'' mock_questions)
                     (append_history (chat_message ''assistant'' mock_analysis) st2),
                   [''No valid Gemini API key found. Using mock responses.''])))
      else (st, []))"

section \<open>The turn loop\<close>

text \<open>
  Modelled from the spec: the turn loop of the Session Controller. The repository hands
  its group chat, with \<open>max_round = 50\<close>, to the group chat manager of the autogen
  library and contains no loop of its own, so the loop follows sections 3 and 4.3 of the
  specification: the arbiter picks the next speaker from the last speaker and the
  transcript; when it gives no next speaker the controller sets \<open>terminated\<close>;
  otherwise the chosen agent's output is appended, \<open>roundCount\<close> grows by one and the
  ceiling is checked. A terminated session is left as it is. The arbiter and the agents'
  generation are parameters; the ceiling is \<open>max_round group_chat\<close>.
\<close>

record SessionState =
  transcript :: "message list"
  roundCount :: nat
  terminated :: bool

definition startSession :: "message list \<Rightarrow> SessionState" where
  "startSession seed = \<lparr>transcript = seed, roundCount = 0, terminated = False\<rparr>"

definition take_turn ::
  "(agent \<Rightarrow> message list \<Rightarrow> string) \<Rightarrow> agent \<Rightarrow> SessionState \<Rightarrow> SessionState" where
  "take_turn generate a s =
     (let t = \<lparr>name = name_of a, role = None, content = generate a (transcript s)\<rparr>;
          n = roundCount s + 1
      in \<lparr>transcript = transcript s @ [t], roundCount = n,
          terminated = (max_round group_chat \<le> n)\<rparr>)"

function turn_loop ::
  "(agent option \<Rightarrow> GroupChat \<Rightarrow> agent option) \<Rightarrow> (agent \<Rightarrow> message list \<Rightarrow> string)
     \<Rightarrow> agent option \<Rightarrow> SessionState \<Rightarrow> SessionState" where
  "turn_loop arbiter generate last_speaker s =
     (if terminated s then s
      else
        (case arbiter last_speaker (group_chat\<lparr>messages := transcript s\<rparr>) of
           None \<Rightarrow> s\<lparr>terminated := True\<rparr>
         | Some a \<Rightarrow> turn_loop arbiter generate (Some a) (take_turn generate a s)))"
  by pat_completeness auto
termination
  by (relation "measure (\<lambda>(arbiter, generate, last_speaker, s).
         if terminated s then 0 else 1 + (max_round group_chat - roundCount s))")
     (auto simp: take_turn_def group_chat_def Let_def)

text \<open>
  The states a session passes through, with the speaker of the last turn: the start, a
  turn taken, and the arbiter's end of the conversation.
\<close>

inductive reachable ::
  "(agent option \<Rightarrow> GroupChat \<Rightarrow> agent option) \<Rightarrow> (agent \<Rightarrow> message list \<Rightarrow> string)
     \<Rightarrow> message list \<Rightarrow> agent option \<times> SessionState \<Rightarrow> bool"
  for arbiter generate seed where
  start: "reachable arbiter generate seed (None, startSession seed)"
| turn: "reachable arbiter generate seed (last_speaker, s) \<Longrightarrow> \<not> terminated s
     \<Longrightarrow> arbiter last_speaker (group_chat\<lparr>messages := transcript s\<rparr>) = Some a
     \<Longrightarrow> reachable arbiter generate seed (Some a, take_turn generate a s)"
| finish: "reachable arbiter generate seed (last_speaker, s) \<Longrightarrow> \<not> terminated s
     \<Longrightarrow> arbiter last_speaker (group_chat\<lparr>messages := transcript s\<rparr>) = None
     \<Longrightarrow> reachable arbiter generate seed (last_speaker, s\<lparr>terminated := True\<rparr>)"

section \<open>Turns of a transcript\<close>

text \<open>
  The most recent turn of the interviewer before the last turn of a transcript: the
  turns are searched backwards, the last one left out, for the one recorded under the
  interviewer's name.
\<close>

definition last_interviewer_turn :: "message list \<Rightarrow> message option" where
  "last_interviewer_turn msgs =
     find (\<lambda>m. name m = name_of interviewer_agent) (rev (butlast msgs))"

section \<open>Inputs used by the examples\<close>

text \<open>Three short group chats: a closing exchange, an answer with keywords, a plain answer.\<close>

definition closing_transcript :: "message list" where
  "closing_transcript =
     [\<lparr>name = Some ''InterviewerAgent'', role = Some ''assistant'',
        content = ''Have a great day! TERMINATE''\<rparr>,
      \<lparr>name = Some ''CandidateAgent'', role = Some ''user'', content = ''Thank you''\<rparr>]"

definition keyword_transcript :: "message list" where
  "keyword_transcript =
     [\<lparr>name = Some ''InterviewerAgent'', role = Some ''assistant'',
        content = ''What is your background?''\<rparr>,
      \<lparr>name = Some ''CandidateAgent'', role = Some ''user'',
        content = ''My resume fits the job description''\<rparr>]"

definition answer_transcript :: "message list" where
  "answer_transcript =
     [\<lparr>name = Some ''InterviewerAgent'', role = Some ''assistant'',
        content = ''What is your background?''\<rparr>,
      \<lparr>name = Some ''CandidateAgent'', role = Some ''user'',
        content = ''I write Python''\<rparr>]"

text \<open>The seed message of the repository's own test of the speaker selection.\<close>

definition seed_transcript :: "message list" where
  "seed_transcript =
     [\<lparr>name = None, role = None,
        content = ''Resume: test resume\<newline>Job Description: test job''\<rparr>]"

text \<open>A service that fails on every call, and one that always answers.\<close>

definition failing_service :: genai where
  "failing_service mdl config prompt = Inl (Exception ''429 quota exceeded'')"

definition echo_service :: genai where
  "echo_service mdl config prompt = Inr ''generated''"

definition alex :: GeminiAssistantAgent where
  "alex =
     \<lparr>agent_name = ''InterviewerAgent'', system_message = ''You are Alex'',
      model = ''gemini-2.5-flash'', temperature = 0.5\<rparr>"

text \<open>A start of the interview with an empty job description, in a fresh session.\<close>

definition empty_jd_inputs :: inputs where
  "empty_jd_inputs =
     \<lparr>candidate_name = ''Ada'', resume_file = Some \<lparr>file_size = 2048\<rparr>,
      job_description = [], start_button = True\<rparr>"

definition complete_inputs :: inputs where
  "complete_inputs =
     \<lparr>candidate_name = ''Ada'', resume_file = Some \<lparr>file_size = 2048\<rparr>,
      job_description = ''Senior Python developer with five years of experience'',
      start_button = True\<rparr>"

definition fresh_session :: session_state where
  "fresh_session = \<lparr>chat_history = [], interview_started = False\<rparr>"

text \<open>
  The bound a session state keeps: at most 50 rounds, and terminated at 50.
\<close>

definition within_ceiling :: "SessionState \<Rightarrow> bool" where
  "within_ceiling s \<longleftrightarrow> roundCount s \<le> 50 \<and> (roundCount s = 50 \<longrightarrow> terminated s)"

section \<open>Strings: what the searches mean\<close>

lemmas str_eval = lower_def lower_char_def ascii_uppercase_def ascii_lowercase_def

lemma contains_iff: "contains sub s \<longleftrightarrow> (\<exists>ps ss. s = ps @ sub @ ss)"
proof (induction s)
  case Nil
  then show ?case by auto
next
  case (Cons c cs)
  show ?case
  proof
    assume "contains sub (c # cs)"
    then consider (here) "prefix sub (c # cs)" | (later) "contains sub cs" by auto
    then show "\<exists>ps ss. c # cs = ps @ sub @ ss"
    proof cases
      case here
      then obtain ss where "c # cs = sub @ ss" by (auto simp: prefix_def)
      then have "c # cs = [] @ sub @ ss" by simp
      then show ?thesis by blast
    next
      case later
      with Cons.IH obtain ps ss where "cs = ps @ sub @ ss" by blast
      then have "c # cs = (c # ps) @ sub @ ss" by simp
      then show ?thesis by blast
    qed
  next
    assume "\<exists>ps ss. c # cs = ps @ sub @ ss"
    then obtain ps ss where eq: "c # cs = ps @ sub @ ss" by blast
    show "contains sub (c # cs)"
    proof (cases ps)
      case Nil
      with eq have "prefix sub (c # cs)" by (simp add: prefix_def)
      then show ?thesis by simp
    next
      case (Cons p ps')
      with eq have "cs = ps' @ sub @ ss" by simp
      with Cons.IH have "contains sub cs" by blast
      then show ?thesis by simp
    qed
  qed
qed

text \<open>
  Searching the lowered text for a marker is a case-insensitive search: some substring
  of the text lowers to the marker.
\<close>

lemma lower_occurrence:
  "contains marker (lower s) \<longleftrightarrow> (\<exists>ps u ss. s = ps @ u @ ss \<and> lower u = marker)"
  unfolding contains_iff lower_def
  by (metis map_eq_append_conv)

lemma length_strip_le: "length (strip s) \<le> length s"
proof -
  have "length (strip s) = length (dropWhile isspace (rev (dropWhile isspace s)))"
    by (simp add: strip_def)
  also have "\<dots> \<le> length (rev (dropWhile isspace s))"
    by (rule length_dropWhile_le)
  also have "\<dots> \<le> length s"
    by (simp add: length_dropWhile_le)
  finally show ?thesis .
qed

section \<open>The speaker selection\<close>

lemma selection_markers:
  assumes "last_speaker = None \<or> last_speaker = Some user_proxy_agent"
    and "contains ''resume'' (lower (last_message g))"
    and "contains ''job description'' (lower (last_message g))"
  shows "custom_speaker_selection last_speaker g = Some resume_analyzer_agent"
  using assms by (auto simp: custom_speaker_selection_def)

lemma selection_candidate:
  "custom_speaker_selection (Some user_proxy_agent) g =
     (if contains ''resume'' (lower (last_message g))
         \<and> contains ''job description'' (lower (last_message g))
      then Some resume_analyzer_agent else Some interviewer_agent)"
  by (simp add: custom_speaker_selection_def)

text \<open>
  The branch that tests for \<open>TERMINATE\<close> stands under a condition that excludes the
  interviewer as last speaker, so no input reaches it: the selection never gives the
  evaluator.
\<close>

lemma selection_never_evaluator:
  "custom_speaker_selection last_speaker g \<noteq> Some evaluator_agent"
  by (simp add: custom_speaker_selection_def)

text \<open>
  Claim C1, as amended. When the most recent interviewer turn before the last turn does
  not contain \<open>TERMINATE\<close>, the selection after a candidate turn gives the resume
  analyzer if the last message contains both \<open>resume\<close> and \<open>job description\<close>
  (case-insensitively), and the interviewer otherwise. Nothing is said here about a
  transcript whose interviewer turn does contain the token.
\<close>

theorem candidate_turn_without_termination:
  assumes "last_interviewer_turn (messages g) = Some m"
    and "\<not> contains ''TERMINATE'' (content m)"
  shows "custom_speaker_selection (Some user_proxy_agent) g =
     (if contains ''resume'' (lower (last_message g))
         \<and> contains ''job description'' (lower (last_message g))
      then Some resume_analyzer_agent else Some interviewer_agent)"
  by (rule selection_candidate)

theorem candidate_turn_without_termination_witness:
  "custom_speaker_selection (Some user_proxy_agent) (group_chat\<lparr>messages := answer_transcript\<rparr>)
     = Some interviewer_agent"
proof -
  let ?g = "group_chat\<lparr>messages := answer_transcript\<rparr>"
  have t: "last_interviewer_turn (messages ?g) = Some (hd answer_transcript)"
    by (simp add: answer_transcript_def last_interviewer_turn_def)
  have n: "\<not> contains ''TERMINATE'' (content (hd answer_transcript))"
    by (simp add: answer_transcript_def)
  have l: "\<not> contains ''resume'' (lower (last_message ?g))"
    by (simp add: answer_transcript_def last_message_def str_eval)
  show ?thesis using candidate_turn_without_termination [OF t n] l by simp
qed

text \<open>
  Claim C1 as stated fails twice. After the closing exchange, whose interviewer turn
  contains \<open>TERMINATE\<close>, the selection gives the interviewer, not the evaluator. After
  an answer that mentions the resume and the job description, with no token in the
  interviewer's turn, it gives the resume analyzer, not the interviewer.
\<close>

theorem candidate_turn_counterexample:
  "last_interviewer_turn closing_transcript = Some (hd closing_transcript)
   \<and> contains ''TERMINATE'' (content (hd closing_transcript))
   \<and> custom_speaker_selection (Some user_proxy_agent)
        (group_chat\<lparr>messages := closing_transcript\<rparr>) = Some interviewer_agent
   \<and> custom_speaker_selection (Some user_proxy_agent)
        (group_chat\<lparr>messages := closing_transcript\<rparr>) \<noteq> Some evaluator_agent
   \<and> last_interviewer_turn keyword_transcript = Some (hd keyword_transcript)
   \<and> \<not> contains ''TERMINATE'' (content (hd keyword_transcript))
   \<and> custom_speaker_selection (Some user_proxy_agent)
        (group_chat\<lparr>messages := keyword_transcript\<rparr>) = Some resume_analyzer_agent
   \<and> custom_speaker_selection (Some user_proxy_agent)
        (group_chat\<lparr>messages := keyword_transcript\<rparr>) \<noteq> Some interviewer_agent"
  by (simp add: closing_transcript_def keyword_transcript_def last_interviewer_turn_def
      custom_speaker_selection_def last_message_def group_chat_def str_eval)

text \<open>
  Claim C2. For a non-empty transcript whose last message contains both \<open>resume\<close> and
  \<open>job description\<close> as case-insensitive substrings, the selection with no last
  speaker gives the resume analyzer.
\<close>

theorem session_start_selects_analyzer:
  assumes "messages g \<noteq> []"
    and "contains ''resume'' (lower (content (last (messages g))))"
    and "contains ''job description'' (lower (content (last (messages g))))"
  shows "custom_speaker_selection None g = Some resume_analyzer_agent"
proof -
  from assms(1) have "last_message g = content (last (messages g))"
    by (simp add: last_message_def)
  with assms(2,3) show ?thesis
    by (simp add: selection_markers)
qed

theorem session_start_selects_analyzer_witness:
  "custom_speaker_selection None (group_chat\<lparr>messages := seed_transcript\<rparr>)
     = Some resume_analyzer_agent"
proof -
  let ?g = "group_chat\<lparr>messages := seed_transcript\<rparr>"
  have a: "messages ?g \<noteq> []" by (simp add: seed_transcript_def)
  have b: "contains ''resume'' (lower (content (last (messages ?g))))"
    by (simp add: seed_transcript_def str_eval)
  have c: "contains ''job description'' (lower (content (last (messages ?g))))"
    by (simp add: seed_transcript_def str_eval)
  show ?thesis by (rule session_start_selects_analyzer [OF a b c])
qed

text \<open>
  Claim C3. Whatever the transcript holds, the token \<open>TERMINATE\<close> in its last turn
  included, the selection after the interviewer gives the candidate, and never the
  evaluator: the end of the interview is not detected on the interviewer's own turn.
\<close>

theorem interviewer_yields_to_candidate:
  "custom_speaker_selection (Some interviewer_agent) g = Some user_proxy_agent
   \<and> custom_speaker_selection (Some interviewer_agent) g \<noteq> Some evaluator_agent"
  by (simp add: custom_speaker_selection_def)

text \<open>
  Claim C6. For a last speaker that is neither \<open>None\<close> nor one of the five agents, and
  for every transcript, the empty one included (its last message reads as the empty
  string), the selection gives the candidate. The selection is a total function of the
  last speaker and the group chat: its only partial read, \<open>messages[-1]\<close>, is guarded
  in the source, so no branch raises.
\<close>

theorem unrecognized_speaker_defaults_to_candidate:
  assumes "last_speaker \<notin> {None, Some user_proxy_agent, Some resume_analyzer_agent,
      Some question_generator_agent, Some interviewer_agent, Some evaluator_agent}"
  shows "custom_speaker_selection last_speaker g = Some user_proxy_agent"
  using assms by (simp add: custom_speaker_selection_def)

theorem unrecognized_speaker_defaults_to_candidate_witness:
  "messages group_chat = []
   \<and> custom_speaker_selection (Some (other_agent 0)) group_chat = Some user_proxy_agent"
  using unrecognized_speaker_defaults_to_candidate [of "Some (other_agent 0)" group_chat]
  by (simp add: group_chat_def)

text \<open>
  Claim C9. Whatever the transcript holds, the selection after the resume analyzer gives
  the question generator.
\<close>

theorem analyzer_then_question_generator:
  "custom_speaker_selection (Some resume_analyzer_agent) g = Some question_generator_agent"
  by (simp add: custom_speaker_selection_def)

text \<open>
  Claim C10. When the last message contains both \<open>resume\<close> and \<open>job description\<close>
  case-insensitively, the selection after a candidate turn gives the resume analyzer:
  the check of the content comes before the default that continues the interview.
\<close>

theorem candidate_keywords_select_analyzer:
  assumes "contains ''resume'' (lower (last_message g))"
    and "contains ''job description'' (lower (last_message g))"
  shows "custom_speaker_selection (Some user_proxy_agent) g = Some resume_analyzer_agent"
  using assms by (simp add: selection_markers)

theorem candidate_keywords_select_analyzer_witness:
  "custom_speaker_selection (Some user_proxy_agent) (group_chat\<lparr>messages := keyword_transcript\<rparr>)
     = Some resume_analyzer_agent"
proof -
  let ?g = "group_chat\<lparr>messages := keyword_transcript\<rparr>"
  have b: "contains ''resume'' (lower (last_message ?g))"
    by (simp add: keyword_transcript_def last_message_def str_eval)
  have c: "contains ''job description'' (lower (last_message ?g))"
    by (simp add: keyword_transcript_def last_message_def str_eval)
  show ?thesis by (rule candidate_keywords_select_analyzer [OF b c])
qed

section \<open>The generate operations\<close>

text \<open>
  Claim C5. When the generation service raises an exception \<open>e\<close> for the request,
  \<open>GeminiWrapper.generate_content\<close> and \<open>GeminiAssistantAgent.generate_reply\<close>
  return the text \<open>Error: \<close> followed by \<open>str(e)\<close>, and neither of them ever
  raises, whatever the service does.
\<close>

theorem generation_failure_becomes_error_text:
  "(service mdl (generation_config temp) prompt = Inl e
      \<longrightarrow> generate_content service prompt mdl temp = Inr (''Error: '' @ str e))
   \<and> (service (model self) (generation_config (temperature self))
         (format_messages_for_gemini self msgs) = Inl e
      \<longrightarrow> generate_reply service self msgs = Inr (''Error: '' @ str e))
   \<and> \<not> isl (generate_content service prompt mdl temp)
   \<and> \<not> isl (generate_reply service self msgs)"
  by (simp add: generate_content_def generate_reply_def Let_def split: sum.splits)

theorem generation_failure_becomes_error_text_witness:
  "generate_content failing_service ''Hello'' ''gemini-2.5-pro'' 0.7
     = Inr ''Error: 429 quota exceeded''
   \<and> generate_reply failing_service alex [] = Inr ''Error: 429 quota exceeded''"
  using generation_failure_becomes_error_text
    [of failing_service "''gemini-2.5-pro''" "0.7" "''Hello''"
        "Exception ''429 quota exceeded''" alex "[]"]
  by (simp add: failing_service_def)

section \<open>Constructing an agent\<close>

text \<open>
  Claim C7, as amended. Constructing an agent raises exactly when the variable
  \<open>GOOGLE_API_KEY\<close> is missing, is the empty string, or is the placeholder
  \<open>YOUR_GEMINI_API_KEY_HERE\<close>, and what it raises is the \<open>ValueError\<close> of the
  source. The construction then gives no agent, so no turn can be asked of one.
\<close>

theorem init_raises_iff_key_unusable:
  "(isl (GeminiAssistantAgent_init environ nm sys_msg mdl temp)
      \<longleftrightarrow> environ ''GOOGLE_API_KEY'' = None \<or> environ ''GOOGLE_API_KEY'' = Some []
        \<or> environ ''GOOGLE_API_KEY'' = Some ''YOUR_GEMINI_API_KEY_HERE'')
   \<and> (isl (GeminiAssistantAgent_init environ nm sys_msg mdl temp)
      \<longleftrightarrow> GeminiAssistantAgent_init environ nm sys_msg mdl temp = Inl
        (ValueError ''GOOGLE_API_KEY not found or not set. Please check your .env file.''))"
  by (auto simp: GeminiAssistantAgent_init_def Let_def not_key_def placeholder_key_def)

theorem init_raises_iff_key_unusable_witness:
  "isl (GeminiAssistantAgent_init [''GOOGLE_API_KEY'' \<mapsto> ''YOUR_GEMINI_API_KEY_HERE'']
          ''TestAgent'' ''Test system message'' ''gemini-2.5-pro'' 0.5)
   \<and> \<not> isl (GeminiAssistantAgent_init [''GOOGLE_API_KEY'' \<mapsto> ''test_api_key'']
          ''TestAgent'' ''Test system message'' ''gemini-2.5-pro'' 0.5)"
  using init_raises_iff_key_unusable
      [of "[''GOOGLE_API_KEY'' \<mapsto> ''YOUR_GEMINI_API_KEY_HERE'']" "''TestAgent''"
          "''Test system message''" "''gemini-2.5-pro''" "0.5"]
    init_raises_iff_key_unusable
      [of "[''GOOGLE_API_KEY'' \<mapsto> ''test_api_key'']" "''TestAgent''"
          "''Test system message''" "''gemini-2.5-pro''" "0.5"]
  by simp

text \<open>
  Claim C7 as stated fails for a key that is set to the empty string: the variable is
  neither missing nor the placeholder, and the construction raises.
\<close>

theorem init_empty_key_counterexample:
  "isl (GeminiAssistantAgent_init [''GOOGLE_API_KEY'' \<mapsto> []] ''TestAgent''
          ''Test system message'' ''gemini-2.5-pro'' 0.5)
   \<and> [''GOOGLE_API_KEY'' \<mapsto> []] ''GOOGLE_API_KEY'' \<noteq> None
   \<and> [''GOOGLE_API_KEY'' \<mapsto> []] ''GOOGLE_API_KEY'' \<noteq> Some ''YOUR_GEMINI_API_KEY_HERE''"
  by (simp add: GeminiAssistantAgent_init_def Let_def not_key_def placeholder_key_def)

section \<open>Starting the interview\<close>

lemma job_description_rejected:
  "length (strip jd) < 50 \<Longrightarrow> job_description_errors jd \<noteq> []"
  by (simp add: job_description_errors_def)

lemma resume_file_rejected:
  "upload = None \<or> (\<exists>f. upload = Some f \<and> 10 * 1024 * 1024 < file_size f)
     \<Longrightarrow> resume_file_errors upload \<noteq> []"
  by (auto simp: resume_file_errors_def)

lemma start_interview_rejected:
  "start_button inp \<Longrightarrow> \<not> interview_started st \<Longrightarrow> validation_errors inp \<noteq> []
     \<Longrightarrow> start_interview service wrapper inp st = (st, validation_errors inp)"
  by (simp add: start_interview_def)

text \<open>With complete inputs the same click does append to the chat history.\<close>

lemma start_interview_accepted:
  "length (chat_history (fst (start_interview echo_service (Some ''key'') complete_inputs
      fresh_session))) = 3"
  by (simp add: start_interview_def validation_errors_def candidate_name_errors_def
      resume_file_errors_def job_description_errors_def strip_def isspace_def whitespace_def
      fresh_session_def complete_inputs_def generate_content_def echo_service_def
      append_history_def Let_def)

text \<open>
  Claim C8. When the start button is pressed in a session that has not started, and the
  job description is empty or shorter than 50 characters (as typed, or once stripped),
  or no resume is uploaded, or the upload is larger than 10 MB, the start is rejected:
  the validation errors are shown and there is at least one, the session state is
  returned as it was, so nothing is appended to the chat history, and an empty chat
  history stays empty.
\<close>

theorem invalid_start_leaves_history:
  assumes click: "start_button inp" "\<not> interview_started st"
    and bad: "job_description inp = [] \<or> length (job_description inp) < 50
        \<or> length (strip (job_description inp)) < 50
        \<or> resume_file inp = None
        \<or> (\<exists>f. resume_file inp = Some f \<and> 10 * 1024 * 1024 < file_size f)"
  shows "start_interview service wrapper inp st = (st, validation_errors inp)
     \<and> validation_errors inp \<noteq> []
     \<and> chat_history (fst (start_interview service wrapper inp st)) = chat_history st
     \<and> (chat_history st = []
          \<longrightarrow> chat_history (fst (start_interview service wrapper inp st)) = [])"
proof -
  have "job_description_errors (job_description inp) \<noteq> []
        \<or> resume_file_errors (resume_file inp) \<noteq> []"
  proof -
    have "length (strip (job_description inp)) < 50
        \<or> (resume_file inp = None
          \<or> (\<exists>f. resume_file inp = Some f \<and> 10 * 1024 * 1024 < file_size f))"
      using bad length_strip_le [of "job_description inp"] by fastforce
    then consider (jd) "length (strip (job_description inp)) < 50"
      | (upload) "resume_file inp = None
          \<or> (\<exists>f. resume_file inp = Some f \<and> 10 * 1024 * 1024 < file_size f)"
      by blast
    then show ?thesis
    proof cases
      case jd
      then show ?thesis by (simp add: job_description_rejected)
    next
      case upload
      then show ?thesis by (simp add: resume_file_rejected)
    qed
  qed
  then have errs: "validation_errors inp \<noteq> []"
    by (auto simp: validation_errors_def)
  with click have "start_interview service wrapper inp st = (st, validation_errors inp)"
    by (rule start_interview_rejected)
  with errs show ?thesis by simp
qed

theorem invalid_start_leaves_history_witness:
  "start_interview echo_service (Some ''key'') empty_jd_inputs fresh_session
     = (fresh_session, [''Job description is required''])
   \<and> chat_history (fst (start_interview echo_service (Some ''key'') empty_jd_inputs
        fresh_session)) = []"
proof -
  have a: "start_button empty_jd_inputs" by (simp add: empty_jd_inputs_def)
  have b: "\<not> interview_started fresh_session" by (simp add: fresh_session_def)
  have c: "job_description empty_jd_inputs = [] \<or> length (job_description empty_jd_inputs) < 50
        \<or> length (strip (job_description empty_jd_inputs)) < 50
        \<or> resume_file empty_jd_inputs = None
        \<or> (\<exists>f. resume_file empty_jd_inputs = Some f \<and> 10 * 1024 * 1024 < file_size f)"
    by (simp add: empty_jd_inputs_def)
  have v: "validation_errors empty_jd_inputs = [''Job description is required'']"
    by (simp add: validation_errors_def empty_jd_inputs_def candidate_name_errors_def
        resume_file_errors_def job_description_errors_def strip_def isspace_def whitespace_def)
  have h: "chat_history fresh_session = []" by (simp add: fresh_session_def)
  show ?thesis
    using invalid_start_leaves_history [OF a b c, of echo_service "Some ''key''"] v h by simp
qed

section \<open>The round ceiling\<close>

lemma max_round_group_chat: "max_round group_chat = 50"
  by (simp add: group_chat_def)

lemma take_turn_roundCount: "roundCount (take_turn generate a s) = roundCount s + 1"
  by (simp add: take_turn_def Let_def)

lemma take_turn_terminated:
  "terminated (take_turn generate a s) \<longleftrightarrow> 50 \<le> roundCount s + 1"
  by (simp add: take_turn_def Let_def group_chat_def)

lemma take_turn_within_ceiling:
  "within_ceiling s \<Longrightarrow> \<not> terminated s \<Longrightarrow> within_ceiling (take_turn generate a s)"
  by (auto simp: within_ceiling_def take_turn_roundCount take_turn_terminated)

text \<open>The bound is an invariant of the reachable states: rule induction.\<close>

lemma reachable_within_ceiling:
  "reachable arbiter generate seed p \<Longrightarrow> within_ceiling (snd p)"
proof (induction rule: reachable.induct)
  case start
  show ?case by (simp add: within_ceiling_def startSession_def)
next
  case (turn last_speaker s a)
  then show ?case by (simp add: take_turn_within_ceiling)
next
  case (finish last_speaker s)
  then show ?case by (simp add: within_ceiling_def)
qed

text \<open>
  The loop is a total function (its termination is proved with its definition), and from
  a state within the bound it ends terminated and within the bound: computation
  induction.
\<close>

lemma turn_loop_halts:
  "within_ceiling s \<Longrightarrow>
     terminated (turn_loop arbiter generate last_speaker s)
     \<and> roundCount (turn_loop arbiter generate last_speaker s) \<le> 50"
proof (induction arbiter generate last_speaker s rule: turn_loop.induct)
  case (1 arbiter generate last_speaker s)
  show ?case
  proof (cases "terminated s")
    case True
    with "1.prems" show ?thesis by (simp add: within_ceiling_def)
  next
    case False
    show ?thesis
    proof (cases "arbiter last_speaker (group_chat\<lparr>messages := transcript s\<rparr>)")
      case None
      with False "1.prems" show ?thesis by (simp add: within_ceiling_def)
    next
      case (Some a)
      from False "1.prems" have "within_ceiling (take_turn generate a s)"
        by (rule take_turn_within_ceiling [rotated])
      with "1.IH" [OF False Some] False Some show ?thesis by simp
    qed
  qed
qed

text \<open>An arbiter that never ends the conversation is stopped at exactly 50 rounds.\<close>

lemma turn_loop_reaches_ceiling:
  "(\<forall>l g. arbiter l g \<noteq> None) \<Longrightarrow> within_ceiling s \<Longrightarrow> \<not> terminated s \<Longrightarrow>
     roundCount (turn_loop arbiter generate last_speaker s) = 50"
proof (induction arbiter generate last_speaker s rule: turn_loop.induct)
  case (1 arbiter generate last_speaker s)
  from "1.prems"(1) obtain a
    where a: "arbiter last_speaker (group_chat\<lparr>messages := transcript s\<rparr>) = Some a"
    by (metis not_Some_eq)
  have w: "within_ceiling (take_turn generate a s)"
    using "1.prems"(2,3) by (rule take_turn_within_ceiling)
  have step: "turn_loop arbiter generate last_speaker s
      = turn_loop arbiter generate (Some a) (take_turn generate a s)"
    using "1.prems"(3) a by simp
  show ?case
  proof (cases "terminated (take_turn generate a s)")
    case True
    then have "turn_loop arbiter generate (Some a) (take_turn generate a s)
        = take_turn generate a s" by simp
    moreover from True "1.prems"(2,3) have "roundCount (take_turn generate a s) = 50"
      by (auto simp: within_ceiling_def take_turn_roundCount take_turn_terminated)
    ultimately show ?thesis using step by simp
  next
    case False
    with "1.IH" [OF "1.prems"(3) a "1.prems"(1) w] step show ?thesis by simp
  qed
qed

text \<open>
  Driven by the repository's own speaker selection from the seed message, the loop is
  stopped by the ceiling: the selection alternates between interviewer and candidate
  and never ends the conversation by itself.
\<close>

lemma selection_loop_ends_at_ceiling:
  "roundCount (turn_loop custom_speaker_selection (\<lambda>a msgs. ''ok'') None
      (startSession seed_transcript)) = 50"
  by code_simp

text \<open>
  Claim C4. In every state a session reaches, whatever the arbiter and the agents
  return, \<open>roundCount\<close> is at most 50, and a state whose \<open>roundCount\<close> is 50 is
  terminated; run from any such state the loop halts, terminated, with \<open>roundCount\<close>
  at most 50. The arbiter is arbitrary, so this covers one that never returns "no next
  speaker".
\<close>

theorem round_count_within_ceiling:
  assumes "reachable arbiter generate seed (last_speaker, s)"
  shows "roundCount s \<le> 50
     \<and> (roundCount s = 50 \<longrightarrow> terminated s)
     \<and> terminated (turn_loop arbiter generate last_speaker s)
     \<and> roundCount (turn_loop arbiter generate last_speaker s) \<le> 50"
proof -
  from assms have w: "within_ceiling s"
    by (auto dest: reachable_within_ceiling)
  then have "roundCount s \<le> 50" and "roundCount s = 50 \<longrightarrow> terminated s"
    by (simp_all add: within_ceiling_def)
  with turn_loop_halts [OF w] show ?thesis by simp
qed

theorem round_count_within_ceiling_witness:
  "terminated (turn_loop custom_speaker_selection (\<lambda>a msgs. ''ok'') None
      (startSession seed_transcript))
   \<and> roundCount (turn_loop custom_speaker_selection (\<lambda>a msgs. ''ok'') None
      (startSession seed_transcript)) \<le> 50"
proof -
  have r: "reachable custom_speaker_selection (\<lambda>a msgs. ''ok'') seed_transcript
      (None, startSession seed_transcript)"
    by (rule reachable.start)
  show ?thesis using round_count_within_ceiling [OF r] by simp
qed

end
